theory Spec2Isabelle
  imports Complex_Main "HOL-Library.Word"
begin

text \<open>
  A shallow embedding of the kinetic-typography player (\<open>KineticTypographyPlayer.tsx\<close>)
  and of the script generator (\<open>generateAutopsyScript\<close> of the Gemini service): the
  styled-word parser, the timeline builder, the layout engine, the per-frame activation
  logic, the render clock and progress report, the recorder's stop handler, and the
  repair of emphasis markers. The canvas metrics, the clocks, the random numbers and the
  answer of the generative service are parameters of the functions that use them.
\<close>

section \<open>JavaScript strings\<close>

text \<open>
  A JavaScript string is a sequence of UTF-16 code units; \<open>length\<close>, \<open>slice\<close>,
  \<open>startsWith\<close> and regular expressions without the \<open>u\<close> flag all work on code units.
  ASCII literals of the source are written \<open>js ''...''\<close>, other characters by their code unit.
\<close>

type_synonym jschar = "16 word"
type_synonym jsstring = "jschar list"

definition js :: "string \<Rightarrow> jsstring" where
  "js s = map of_char s"

abbreviation STAR :: jschar where "STAR \<equiv> 0x2A"
abbreviation LBRACKET :: jschar where "LBRACKET \<equiv> 0x5B"
abbreviation RBRACKET :: jschar where "RBRACKET \<equiv> 0x5D"
abbreviation LPAREN :: jschar where "LPAREN \<equiv> 0x28"
abbreviation RPAREN :: jschar where "RPAREN \<equiv> 0x29"
abbreviation BAR :: jschar where "BAR \<equiv> 0x7C"
abbreviation SPACE :: jschar where "SPACE \<equiv> 0x20"

text \<open>\<open>s.startsWith(c)\<close> and \<open>s.endsWith(c)\<close> for a one-character string \<open>c\<close>.\<close>

definition startsWith :: "jschar \<Rightarrow> jsstring \<Rightarrow> bool" where
  "startsWith c s = (case s of [] \<Rightarrow> False | x # _ \<Rightarrow> x = c)"

definition endsWith :: "jschar \<Rightarrow> jsstring \<Rightarrow> bool" where
  "endsWith c s = (case rev s of [] \<Rightarrow> False | x # _ \<Rightarrow> x = c)"

text \<open>
  \<open>s.substring(a, b)\<close>: both indices are clamped to the length and swapped when \<open>a > b\<close>.
\<close>

definition substring :: "jsstring \<Rightarrow> nat \<Rightarrow> nat \<Rightarrow> jsstring" where
  "substring s a b =
     (let a' = min a (length s); b' = min b (length s);
          lo = min a' b'; hi = max a' b'
      in take (hi - lo) (drop lo s))"

text \<open>
  The characters that \<open>String.prototype.trim\<close> removes and that \<open>\s\<close> matches:
  ECMAScript WhiteSpace and LineTerminator.
\<close>

definition isWhiteSpace :: "jschar \<Rightarrow> bool" where
  "isWhiteSpace c =
     ((0x09 \<le> c \<and> c \<le> 0x0D) \<or> c = 0x20 \<or> c = 0xA0 \<or> c = 0x1680
      \<or> (0x2000 \<le> c \<and> c \<le> 0x200A) \<or> c = 0x2028 \<or> c = 0x2029
      \<or> c = 0x202F \<or> c = 0x205F \<or> c = 0x3000 \<or> c = 0xFEFF)"

definition trim :: "jsstring \<Rightarrow> jsstring" where
  "trim s = rev (dropWhile isWhiteSpace (rev (dropWhile isWhiteSpace s)))"

text \<open>\<open>s.split(c)\<close> for a one-character separator: never returns the empty array.\<close>

fun splitOn :: "jschar \<Rightarrow> jsstring \<Rightarrow> jsstring list" where
  "splitOn c [] = [[]]"
| "splitOn c (x # xs) =
     (if x = c then [] # splitOn c xs
      else (case splitOn c xs of
              [] \<Rightarrow> [[x]]
            | p # ps \<Rightarrow> (x # p) # ps))"

text \<open>
  \<open>s.split(/\s+/).filter(w => w)\<close>: the maximal runs of non-whitespace characters.
  Splitting at every single whitespace character instead of at every run only adds
  empty pieces, which the filter removes.
\<close>

fun splitAtWhiteSpace :: "jsstring \<Rightarrow> jsstring list" where
  "splitAtWhiteSpace [] = [[]]"
| "splitAtWhiteSpace (x # xs) =
     (if isWhiteSpace x then [] # splitAtWhiteSpace xs
      else (case splitAtWhiteSpace xs of
              [] \<Rightarrow> [[x]]
            | p # ps \<Rightarrow> (x # p) # ps))"

definition splitWords :: "jsstring \<Rightarrow> jsstring list" where
  "splitWords s = filter (\<lambda>w. w \<noteq> []) (splitAtWhiteSpace s)"

section \<open>Styled-word parser (\<open>parseStyledWord\<close>)\<close>

datatype TextStyleEffect = wiggle | glitch | pulse

record Style =
  color :: "jsstring option"
  effect :: "TextStyleEffect option"

record StyleSpan =
  spanText :: jsstring
  style :: Style

record WordToLayout =
  cleanText :: jsstring
  isHighlight :: bool
  spans :: "StyleSpan list"
  absoluteStartTime :: "real option"
  duration :: "real option"

text \<open>
  \<open>rawWord.replace(/^\*|\*$/g, '')\<close>: the global replace removes an asterisk at the very
  start, then continues after it and removes an asterisk at the very end. The two
  alternatives are independent of each other; on the one-character word \<open>*\<close> the single
  asterisk is consumed by the first alternative.
\<close>

definition stripStars :: "jsstring \<Rightarrow> jsstring" where
  "stripStars rawWord =
     (let s1 = (case rawWord of [] \<Rightarrow> [] | x # xs \<Rightarrow> if x = STAR then xs else rawWord)
      in if s1 \<noteq> [] \<and> last s1 = STAR then butlast s1 else s1)"

text \<open>
  One attempt of \<open>/\[([^\]]+)\]\(([^)]+)\)/\<close> anchored at the head of \<open>s\<close>. Both groups
  are greedy runs of a negated class followed by the excluded character, so the match, when
  there is one, is unique: group 1 runs to the first \<open>]\<close>, group 2 to the first \<open>)\<close>.
  The result is (group 1, group 2, length of the whole match).
\<close>

definition matchAt :: "jsstring \<Rightarrow> (jsstring \<times> jsstring \<times> nat) option" where
  "matchAt s =
     (case s of
        [] \<Rightarrow> None
      | c # t \<Rightarrow>
          if c \<noteq> LBRACKET then None
          else
            let g1 = takeWhile (\<lambda>x. x \<noteq> RBRACKET) t;
                r1 = dropWhile (\<lambda>x. x \<noteq> RBRACKET) t
            in if g1 = [] then None
               else (case r1 of
                       [] \<Rightarrow> None
                     | _ # r2 \<Rightarrow>
                         (case r2 of
                            [] \<Rightarrow> None
                          | p # r3 \<Rightarrow>
                              if p \<noteq> LPAREN then None
                              else
                                let g2 = takeWhile (\<lambda>x. x \<noteq> RPAREN) r3;
                                    r4 = dropWhile (\<lambda>x. x \<noteq> RPAREN) r3
                                in if g2 = [] then None
                                   else (case r4 of
                                           [] \<Rightarrow> None
                                         | _ # _ \<Rightarrow>
                                             Some (g1, g2, length g1 + length g2 + 4)))))"

text \<open>
  The leftmost match in \<open>s\<close>: (offset of the match in \<open>s\<close>, group 1, group 2, length).
\<close>

fun findMatch :: "jsstring \<Rightarrow> (nat \<times> jsstring \<times> jsstring \<times> nat) option" where
  "findMatch [] = None"
| "findMatch (c # t) =
     (case matchAt (c # t) of
        Some (g1, g2, n) \<Rightarrow> Some (0, g1, g2, n)
      | None \<Rightarrow>
          (case findMatch t of
             None \<Rightarrow> None
           | Some (off, g1, g2, n) \<Rightarrow> Some (Suc off, g1, g2, n)))"

text \<open>
  \<open>regex.exec(textToParse)\<close> with the global flag, started at \<open>regex.lastIndex\<close>:
  (\<open>match.index\<close>, \<open>match[1]\<close>, \<open>match[2]\<close>, the new \<open>regex.lastIndex\<close>), or \<open>None\<close> for null.
\<close>

definition regexExec :: "jsstring \<Rightarrow> nat \<Rightarrow> (nat \<times> jsstring \<times> jsstring \<times> nat) option" where
  "regexExec textToParse lastIndex =
     (case findMatch (drop lastIndex textToParse) of
        None \<Rightarrow> None
      | Some (off, g1, g2, n) \<Rightarrow> Some (lastIndex + off, g1, g2, lastIndex + off + n))"

text \<open>
  The body of \<open>parts.forEach\<close>: an effect name sets the effect, anything else the color;
  the last one of each kind wins.
\<close>

definition applyPart :: "Style \<Rightarrow> jsstring \<Rightarrow> Style" where
  "applyPart st part =
     (let trimmed = trim part
      in if trimmed = js ''wiggle'' then st\<lparr>effect := Some wiggle\<rparr>
         else if trimmed = js ''glitch'' then st\<lparr>effect := Some glitch\<rparr>
         else if trimmed = js ''pulse'' then st\<lparr>effect := Some pulse\<rparr>
         else st\<lparr>color := Some trimmed\<rparr>)"

definition parseParams :: "jsstring \<Rightarrow> Style" where
  "parseParams params = foldl applyPart \<lparr>color = None, effect = None\<rparr> (splitOn BAR params)"

definition plainSpan :: "jsstring \<Rightarrow> StyleSpan" where
  "plainSpan t = \<lparr>spanText = t, style = \<lparr>color = None, effect = None\<rparr>\<rparr>"

lemma takeWhile_dropWhile_length:
  "length (takeWhile P xs) + length (dropWhile P xs) = length xs"
  by (induction xs) auto

lemma matchAt_length:
  assumes "matchAt s = Some (g1, g2, n)"
  shows "0 < n \<and> n \<le> length s"
proof -
  from assms obtain t x r2 r3 y r5 where
    s: "s = LBRACKET # t"
    and r1: "dropWhile (\<lambda>x. x \<noteq> RBRACKET) t = x # LPAREN # r3"
    and r4: "dropWhile (\<lambda>x. x \<noteq> RPAREN) r3 = y # r5"
    and n: "n = length (takeWhile (\<lambda>x. x \<noteq> RBRACKET) t) + length (takeWhile (\<lambda>x. x \<noteq> RPAREN) r3) + 4"
    by (auto simp: matchAt_def Let_def split: list.splits if_splits)
  from takeWhile_dropWhile_length [of "\<lambda>x. x \<noteq> RBRACKET" t] r1
  have "length t = length (takeWhile (\<lambda>x. x \<noteq> RBRACKET) t) + 2 + length r3"
    by simp
  moreover from takeWhile_dropWhile_length [of "\<lambda>x. x \<noteq> RPAREN" r3] r4
  have "length r3 = length (takeWhile (\<lambda>x. x \<noteq> RPAREN) r3) + 1 + length r5"
    by simp
  ultimately show ?thesis using s n by simp
qed

lemma findMatch_length:
  "findMatch s = Some (off, g1, g2, n) \<Longrightarrow> 0 < n \<and> off + n \<le> length s"
proof (induction s arbitrary: off)
  case Nil
  then show ?case by simp
next
  case (Cons c t)
  show ?case
  proof (cases "matchAt (c # t)")
    case (Some m)
    with Cons.prems have "matchAt (c # t) = Some (g1, g2, n)" and "off = 0"
      by (auto split: prod.splits)
    then show ?thesis using matchAt_length by fastforce
  next
    case None
    with Cons.prems obtain off' where "findMatch t = Some (off', g1, g2, n)" and "off = Suc off'"
      by (auto split: option.splits)
    with Cons.IH show ?thesis by fastforce
  qed
qed

lemma regexExec_bounds:
  assumes "regexExec textToParse lastIndex = Some (idx, g1, g2, newLast)"
  shows "lastIndex \<le> idx \<and> idx < newLast \<and> newLast \<le> length textToParse
         \<and> lastIndex < length textToParse"
proof -
  from assms obtain off n where
    f: "findMatch (drop lastIndex textToParse) = Some (off, g1, g2, n)"
    and i: "idx = lastIndex + off" and l: "newLast = lastIndex + off + n"
    by (auto simp: regexExec_def split: option.splits)
  from findMatch_length [OF f] have "0 < n" and "off + n \<le> length textToParse - lastIndex"
    by simp_all
  with i l show ?thesis by auto
qed

text \<open>
  The \<open>while ((match = regex.exec(textToParse)) !== null)\<close> loop, on the state
  (\<open>lastIndex\<close>, \<open>spans\<close>, \<open>cleanText\<close>). The local \<open>lastIndex\<close> and \<open>regex.lastIndex\<close>
  agree at every test of the loop condition: both are 0 at first and both are the end of the
  last match afterwards. Termination: every match is non-empty and lies inside the text.
\<close>

function parseLoop ::
  "jsstring \<Rightarrow> nat \<Rightarrow> StyleSpan list \<Rightarrow> jsstring \<Rightarrow> nat \<times> StyleSpan list \<times> jsstring" where
  "parseLoop textToParse lastIndex spns clean =
     (case regexExec textToParse lastIndex of
        None \<Rightarrow> (lastIndex, spns, clean)
      | Some (idx, styledText, params, newLast) \<Rightarrow>
          let plainPart = substring textToParse lastIndex idx;
              spns1 = (if idx > lastIndex then spns @ [plainSpan plainPart] else spns);
              clean1 = (if idx > lastIndex then clean @ plainPart else clean);
              spns2 = spns1 @ [\<lparr>spanText = styledText, style = parseParams params\<rparr>];
              clean2 = clean1 @ styledText
          in parseLoop textToParse newLast spns2 clean2)"
  by pat_completeness auto
termination
proof (relation "measure (\<lambda>(t, li, _, _). length t - li)")
  show "wf (measure (\<lambda>(t, li, _, _). length t - li))" by simp
next
  fix textToParse :: jsstring and lastIndex :: nat and spns :: "StyleSpan list"
    and clean :: jsstring and x2 idx x2a styledText x2b params newLast
    and plainPart spns1 clean1 spns2 clean2
  assume "regexExec textToParse lastIndex = Some x2" "(idx, x2a) = x2"
    "(styledText, x2b) = x2a" "(params, newLast) = x2b"
  then have "regexExec textToParse lastIndex = Some (idx, styledText, params, newLast)"
    by simp
  from regexExec_bounds [OF this]
  show "((textToParse, newLast, spns2, clean2), (textToParse, lastIndex, spns, clean))
        \<in> measure (\<lambda>(t, li, _, _). length t - li)"
    by auto
qed

declare parseLoop.simps [simp del]

text \<open>
  \<open>parseStyledWord\<close>. The token carries no timing yet: \<open>absoluteStartTime\<close> and
  \<open>duration\<close> are undefined (\<open>None\<close>) until the timeline builder sets them.
\<close>

definition parseStyledWord :: "jsstring \<Rightarrow> WordToLayout" where
  "parseStyledWord rawWord =
     (let isHl = (startsWith STAR rawWord \<and> endsWith STAR rawWord);
          textToParse = stripStars rawWord;
          (lastIndex, spns, clean) = parseLoop textToParse 0 [] [];
          remainingPart = substring textToParse lastIndex (length textToParse);
          spns1 = (if lastIndex < length textToParse then spns @ [plainSpan remainingPart] else spns);
          clean1 = (if lastIndex < length textToParse then clean @ remainingPart else clean);
          spns2 = (if length spns1 = 0 then [plainSpan textToParse] else spns1);
          clean2 = (if length spns1 = 0 then textToParse else clean1)
      in \<lparr>cleanText = clean2, isHighlight = isHl, spans = spns2,
          absoluteStartTime = None, duration = None\<rparr>)"

text \<open>
  Lines 134 to 172 of \<open>parseStyledWord\<close> on their own, as a function of \<open>textToParse\<close>:
  the \<open>cleanText\<close> and the \<open>spans\<close> of a text whose outer asterisks are already gone.
\<close>

definition parseText :: "jsstring \<Rightarrow> jsstring \<times> StyleSpan list" where
  "parseText textToParse =
     (let (lastIndex, spns, clean) = parseLoop textToParse 0 [] [];
          remainingPart = substring textToParse lastIndex (length textToParse);
          spns1 = (if lastIndex < length textToParse then spns @ [plainSpan remainingPart] else spns);
          clean1 = (if lastIndex < length textToParse then clean @ remainingPart else clean);
          spns2 = (if length spns1 = 0 then [plainSpan textToParse] else spns1);
          clean2 = (if length spns1 = 0 then textToParse else clean1)
      in (clean2, spns2))"


section \<open>JavaScript numbers\<close>

text \<open>
  A JavaScript number is an IEEE 754 binary64 value. \<open>dbl x\<close> is the double nearest to the
  real \<open>x\<close>: 53 significant bits, ties to the even significand, exponents from -1022 to
  1023 with subnormals below. Magnitudes of \<open>2 ^ 1024\<close> and above, which overflow to
  Infinity, are outside the model; the times and sizes of this program are far from them.

  \<open>binadeExp n a 0\<close> is the exponent \<open>e\<close> with \<open>2 ^ e \<le> a < 2 ^ (e + 1)\<close>, not below -1022;
  \<open>n\<close> bounds the search and 1100 steps cover the whole range.
\<close>

definition pow2 :: "int \<Rightarrow> real" where
  "pow2 e = (if 0 \<le> e then 2 ^ nat e else 1 / 2 ^ nat (- e))"

fun binadeExp :: "nat \<Rightarrow> real \<Rightarrow> int \<Rightarrow> int" where
  "binadeExp 0 a e = e"
| "binadeExp (Suc n) a e =
     (if 2 \<le> a then binadeExp n (a / 2) (e + 1)
      else if a < 1 \<and> - 1022 < e then binadeExp n (a * 2) (e - 1)
      else e)"

definition roundHalfEven :: "real \<Rightarrow> int" where
  "roundHalfEven q =
     (let f = \<lfloor>q\<rfloor>; r = q - of_int f
      in if r < 1 / 2 then f else if 1 / 2 < r then f + 1 else if even f then f else f + 1)"

definition dbl :: "real \<Rightarrow> real" where
  "dbl x =
     (if x = 0 then 0
      else let a = \<bar>x\<bar>;
               e = binadeExp 1100 a 0;
               ulp = pow2 (e - 52)
           in sgn x * of_int (roundHalfEven (a / ulp)) * ulp)"

text \<open>
  The arithmetic operators on doubles: the exact result, rounded. A number that enters a
  computation from outside (a literal, a transcript time, a clock reading) is read with
  \<open>dbl\<close>, which leaves a double as it is. Division by zero is handled where it can
  occur, before the operator is used.
\<close>

definition fsub :: "real \<Rightarrow> real \<Rightarrow> real" where
  "fsub a b = dbl (a - b)"

definition fmul :: "real \<Rightarrow> real \<Rightarrow> real" where
  "fmul a b = dbl (a * b)"

definition fdiv :: "real \<Rightarrow> real \<Rightarrow> real" where
  "fdiv a b = dbl (a / b)"

section \<open>Timeline builder (\<open>animateScript\<close>)\<close>

text \<open>
  The drift correction turns on threshold comparisons and is computed in double
  arithmetic. The start times of the words are modelled over the reals: their order is
  what matters, and rounding keeps it. A reference that may hold \<open>null\<close>
  (\<open>audioDurationRef.current\<close>) is an \<open>option\<close>.
\<close>

record TranscriptSegment =
  segText :: jsstring
  segStart :: real
  segEnd :: real

text \<open>
  Drift correction. \<open>audioDurationRef.current && transcriptSegments.length > 0\<close> is
  truthy when the duration is neither \<open>null\<close> nor 0. When \<open>lastSegmentEnd\<close> is 0 the
  quotient is infinite and fails the bounds test, so the scale stays 1.
\<close>

definition timeScale :: "real option \<Rightarrow> TranscriptSegment list \<Rightarrow> real" where
  "timeScale audioDurationRef transcriptSegments =
     (case audioDurationRef of
        None \<Rightarrow> 1
      | Some d \<Rightarrow>
          let audioDuration = dbl d
          in if audioDuration \<noteq> 0 \<and> length transcriptSegments > 0 then
               let lastSegmentEnd = dbl (segEnd (last transcriptSegments))
               in if \<bar>fsub audioDuration lastSegmentEnd\<bar> > dbl 0.5 then
                    if lastSegmentEnd = 0 then 1
                    else
                      let potentialScale = fdiv audioDuration lastSegmentEnd
                      in if potentialScale > dbl 0.8 \<and> potentialScale < dbl 1.2
                         then potentialScale else 1
                  else 1
             else 1)"












definition allWordsOf :: "jsstring \<Rightarrow> WordToLayout list" where
  "allWordsOf script = map parseStyledWord (splitWords script)"


section \<open>Layout engine (\<open>calculateLayoutForWords\<close>)\<close>

datatype FontSize = Small | Medium | Large

datatype FontFamily = Sans | Serif | Handwritten | Round | Dongle | Pen

record FontConfig =
  sizePx :: real
  lineHeight :: real

definition FONT_CONFIG :: "FontSize \<Rightarrow> FontConfig" where
  "FONT_CONFIG fs =
     (case fs of
        Small \<Rightarrow> \<lparr>sizePx = 24, lineHeight = 40\<rparr>
      | Medium \<Rightarrow> \<lparr>sizePx = 32, lineHeight = 50\<rparr>
      | Large \<Rightarrow> \<lparr>sizePx = 40, lineHeight = 60\<rparr>)"

text \<open>The \<open>config\<close> of \<open>animateScript\<close>: two font families are scaled up.\<close>

definition scaledConfig :: "FontSize \<Rightarrow> FontFamily \<Rightarrow> FontConfig" where
  "scaledConfig fs fam =
     (let config = FONT_CONFIG fs
      in if fam = Dongle then \<lparr>sizePx = sizePx config * 2, lineHeight = lineHeight config * 1.5\<rparr>
         else if fam = Pen then \<lparr>sizePx = sizePx config * 1.5, lineHeight = lineHeight config * 1.2\<rparr>
         else config)"

record Line =
  lineWords :: "WordToLayout list"
  lineWidth :: real

record Word = WordToLayout +
  posX :: real
  posY :: real
  alpha :: real
  scale :: real
  yOffset :: real

text \<open>\<open>arr.join(" ")\<close> for a one-character separator.\<close>

fun joinWith :: "jschar \<Rightarrow> jsstring list \<Rightarrow> jsstring" where
  "joinWith sep [] = []"
| "joinWith sep [p] = p"
| "joinWith sep (p # q # ps) = p @ sep # joinWith sep (q # ps)"

definition lineText :: "WordToLayout list \<Rightarrow> jsstring" where
  "lineText ws = joinWith SPACE (map cleanText ws)"

text \<open>
  The canvas is a parameter: \<open>textWidth\<close> stands for \<open>ctx.measureText(t).width\<close> under the
  font that is current, and \<open>measureText s\<close> for it under the font string of size \<open>s\<close>
  (weight and family do not change during a layout).

  The body of \<open>measuredWords.forEach\<close> on the state (\<open>lines\<close>, \<open>currentLineWords\<close>).
\<close>

definition wrapStep ::
  "(jsstring \<Rightarrow> real) \<Rightarrow> real \<Rightarrow> Line list \<times> WordToLayout list \<Rightarrow> WordToLayout
   \<Rightarrow> Line list \<times> WordToLayout list" where
  "wrapStep textWidth maxWidth st word =
     (case st of (lines, currentLineWords) \<Rightarrow>
        let testLineWords = currentLineWords @ [word];
            testLineText = lineText testLineWords
        in if textWidth testLineText > maxWidth \<and> length currentLineWords > 0
           then (lines @ [\<lparr>lineWords = currentLineWords,
                           lineWidth = textWidth (lineText currentLineWords)\<rparr>], [word])
           else (lines, currentLineWords @ [word]))"

definition wrapLines :: "(jsstring \<Rightarrow> real) \<Rightarrow> real \<Rightarrow> WordToLayout list \<Rightarrow> Line list" where
  "wrapLines textWidth maxWidth ws =
     (case foldl (wrapStep textWidth maxWidth) ([], []) ws of (lines, currentLineWords) \<Rightarrow>
        if length currentLineWords > 0
        then lines @ [\<lparr>lineWords = currentLineWords, lineWidth = textWidth (lineText currentLineWords)\<rparr>]
        else lines)"

record FitResult =
  finalFontSize :: real
  fitLines :: "Line list"
  totalHeight :: real
  loops :: nat

text \<open>
  The \<open>do ... while (totalHeight > h - padding * 2 && finalFontSize > 10 && loops < 20)\<close>
  loop, entered with the current \<open>finalFontSize\<close> and \<open>loops\<close>. The counter bounds the
  number of iterations, which is the termination argument.
\<close>

function fitLoop ::
  "(real \<Rightarrow> jsstring \<Rightarrow> real) \<Rightarrow> WordToLayout list \<Rightarrow> real \<Rightarrow> real \<Rightarrow> real \<Rightarrow> real \<Rightarrow> nat
   \<Rightarrow> FitResult" where
  "fitLoop measureText ws w h lineHeightRatio fontSize n =
     (let padding = w * 0.1;
          maxWidth = w - padding * 2;
          lines = wrapLines (measureText fontSize) maxWidth ws;
          total = real (length lines) * (fontSize * lineHeightRatio);
          fontSize' = (if total > h - padding * 2 then fontSize - 2 else fontSize);
          n' = n + 1
      in if total > h - padding * 2 \<and> fontSize' > 10 \<and> n' < 20
         then fitLoop measureText ws w h lineHeightRatio fontSize' n'
         else \<lparr>finalFontSize = fontSize', fitLines = lines, totalHeight = total, loops = n'\<rparr>)"
  by pat_completeness auto
termination
  by (relation "measure (\<lambda>(_, _, _, _, _, _, n). 20 - n)") auto

declare fitLoop.simps [simp del]

fun placeWords ::
  "(jsstring \<Rightarrow> real) \<Rightarrow> real \<Rightarrow> real \<Rightarrow> real \<Rightarrow> WordToLayout list \<Rightarrow> Word list" where
  "placeWords textWidth spaceWidth currentY currentX [] = []"
| "placeWords textWidth spaceWidth currentY currentX (word # ws) =
     WordToLayout.extend word (Word.fields currentX currentY 0 1 0)
       # placeWords textWidth spaceWidth currentY
           (currentX + textWidth (cleanText word) + spaceWidth) ws"

definition calculateLayoutForWords ::
  "(real \<Rightarrow> jsstring \<Rightarrow> real) \<Rightarrow> WordToLayout list \<Rightarrow> real \<Rightarrow> real \<Rightarrow> FontConfig \<Rightarrow> Word list" where
  "calculateLayoutForWords measureText ws w h initialConfig =
     (let lineHeightRatio = lineHeight initialConfig / sizePx initialConfig;
          fit = fitLoop measureText ws w h lineHeightRatio (sizePx initialConfig) 0;
          finalLineHeight = finalFontSize fit * lineHeightRatio;
          startY = (h - totalHeight fit) / 2;
          finalSpaceWidth = measureText (finalFontSize fit) [SPACE]
      in concat (map (\<lambda>(lineIndex, line).
                        placeWords (measureText (finalFontSize fit)) finalSpaceWidth
                          (startY + real lineIndex * finalLineHeight)
                          ((w - lineWidth line) / 2) (lineWords line))
                   (enumerate 0 (fitLines fit))))"

text \<open>A monospaced stand-in for the canvas metrics: every glyph is half an em wide.\<close>

definition halfEm :: "real \<Rightarrow> jsstring \<Rightarrow> real" where
  "halfEm fontSize t = fontSize * 0.5 * real (length t)"

section \<open>Frame renderer (\<open>renderPage\<close>, \<open>animateWord\<close>)\<close>









section \<open>Capture pipeline: clock, progress, recorder\<close>

text \<open>\<open>Math.round\<close> rounds half-way cases towards \<open>+\<infinity>\<close>.\<close>

definition mathRound :: "real \<Rightarrow> int" where
  "mathRound v = \<lfloor>v + 1 / 2\<rfloor>"

text \<open>
  The argument of \<open>onProgress\<close> in the three render loops:
  \<open>Math.min(100, Math.round((actualElapsedTime / totalDuration) * 100))\<close>, in double
  arithmetic: the quotient and the product are each rounded before \<open>Math.round\<close>, which is
  exact on the double it is given. With \<open>totalDuration = 0\<close> the quotient is infinite or
  NaN: \<open>+\<infinity>\<close> is cut to 100, the other two are no integer (\<open>None\<close>).
\<close>

definition progressPercent :: "real \<Rightarrow> real \<Rightarrow> int option" where
  "progressPercent actualElapsedTime totalDuration =
     (let elapsed = dbl actualElapsedTime;
          total = dbl totalDuration
      in if total = 0
         then (if elapsed > 0 then Some 100 else None)
         else Some (min 100 (mathRound (fmul (fdiv elapsed total) 100))))"

text \<open>
  \<open>audioStartTimeRef.current\<close> after the audio set-up of \<open>setupAndStartRecorder\<close>: the
  context's \<open>currentTime\<close> (seconds) when the audio was decoded and started, and
  \<open>performance.now() / 1000\<close> in the \<open>catch\<close> branch, when loading it failed.
\<close>

definition audioStartTimeAfterSetup :: "bool \<Rightarrow> real \<Rightarrow> real \<Rightarrow> real" where
  "audioStartTimeAfterSetup audioLoaded ctxCurrentTime perfNow =
     (if audioLoaded then ctxCurrentTime else perfNow / 1000)"

text \<open>
  \<open>actualElapsedTime\<close> of a frame, per mode. \<open>audioContextRef\<close> is \<open>None\<close> when the
  reference is \<open>null\<close>, and otherwise holds the context's \<open>currentTime\<close> at the frame;
  \<open>perfNow\<close> is \<open>performance.now()\<close>, \<open>time\<close> the frame timestamp, \<open>startTime\<close> the
  \<open>performance.now()\<close> taken when the loop was set up.
\<close>

definition elapsedTimestamped :: "real option \<Rightarrow> real \<Rightarrow> real \<Rightarrow> real" where
  "elapsedTimestamped audioContextRef audioStartTime perfNow =
     (case audioContextRef of
        Some currentTime \<Rightarrow> (currentTime - audioStartTime) * 1000
      | None \<Rightarrow> perfNow)"

definition elapsedPaged :: "real option \<Rightarrow> bool \<Rightarrow> real \<Rightarrow> real \<Rightarrow> real \<Rightarrow> real" where
  "elapsedPaged audioContextRef hasAudioSrc audioStartTime time startTime =
     (case audioContextRef of
        Some currentTime \<Rightarrow>
          if hasAudioSrc then (currentTime - audioStartTime) * 1000 else time - startTime
      | None \<Rightarrow> time - startTime)"

text \<open>
  The third loop (short script without paging): preview sessions wrap around with the
  remainder operator \<open>%\<close>, whose result has the sign of the dividend. Its divisor
  \<open>totalDuration\<close> is at least the hold time of 2000 ms, never 0.
\<close>

definition jsRemainder :: "real \<Rightarrow> real \<Rightarrow> real" where
  "jsRemainder a b =
     a - b * of_int (if a / b < 0 then \<lceil>a / b\<rceil> else \<lfloor>a / b\<rfloor>)"

definition elapsedAmbient :: "bool \<Rightarrow> real \<Rightarrow> real \<Rightarrow> real \<Rightarrow> real" where
  "elapsedAmbient isPreviewMode totalDuration time startTime =
     (let elapsedTime = time - startTime
      in if isPreviewMode then jsRemainder elapsedTime totalDuration else elapsedTime)"

text \<open>
  The recorder. A blob is its bytes; \<open>new Blob(chunks)\<close> concatenates them, and an object
  URL stands for the blob it was created from.
\<close>

type_synonym blob = "8 word list"

datatype objectUrl = ObjectURL blob

datatype callback = OnComplete objectUrl | OnError string

definition ondataavailable :: "blob list \<Rightarrow> blob \<Rightarrow> blob list" where
  "ondataavailable chunks dat = (if length dat > 0 then chunks @ [dat] else chunks)"

definition newBlob :: "blob list \<Rightarrow> blob" where
  "newBlob chunks = concat chunks"

text \<open>
  \<open>mediaRecorder.onstop\<close>: the calls made to the callbacks of the component. The
  \<open>throw\<close> on an empty blob lands in the \<open>catch\<close> of the same handler, which calls
  \<open>onError\<close> when that optional callback was supplied.
\<close>

definition onstop :: "bool \<Rightarrow> blob list \<Rightarrow> callback list" where
  "onstop hasOnError chunks =
     (let blob = newBlob chunks
      in if length blob = 0
         then (if hasOnError then [OnError ''Failed to finalize video file.''] else [])
         else [OnComplete (ObjectURL blob)])"

text \<open>A recording session: the data events in order, then the stop event.\<close>

definition recordingSession :: "bool \<Rightarrow> blob list \<Rightarrow> callback list" where
  "recordingSession hasOnError dataEvents = onstop hasOnError (foldl ondataavailable [] dataEvents)"

section \<open>Script generation (\<open>repairKoreanSentence\<close>, \<open>generateAutopsyScript\<close>)\<close>

text \<open>\<open>(text.match(/\*/g) || []).length\<close>: the number of asterisks.\<close>

definition countStars :: "jsstring \<Rightarrow> nat" where
  "countStars s = length (filter (\<lambda>c. c = STAR) s)"

text \<open>
  \<open>s.slice(a, b)\<close>: a negative index counts from the end, both are clamped to the string.
  \<open>s.slice(a)\<close> runs to the end.
\<close>

definition jsSlice :: "jsstring \<Rightarrow> int \<Rightarrow> int \<Rightarrow> jsstring" where
  "jsSlice s a b =
     (let n = int (length s);
          lo = (if a < 0 then max (n + a) 0 else min a n);
          hi = (if b < 0 then max (n + b) 0 else min b n)
      in if lo < hi then take (nat (hi - lo)) (drop (nat lo) s) else [])"

definition sliceFrom :: "jsstring \<Rightarrow> int \<Rightarrow> jsstring" where
  "sliceFrom s a = jsSlice s a (int (length s))"

text \<open>\<open>arr[i]\<close>: \<open>undefined\<close> (\<open>None\<close>) outside the array.\<close>

definition itemAt :: "'a list \<Rightarrow> int \<Rightarrow> 'a option" where
  "itemAt xs i = (if 0 \<le> i \<and> i < int (length xs) then Some (xs ! nat i) else None)"

text \<open>
  \<open>Math.floor(Math.random() * n)\<close>, with the value \<open>rnd\<close> of \<open>Math.random()\<close> as a
  parameter (\<open>0 \<le> rnd < 1\<close> on a conforming engine).
\<close>

definition randomIndex :: "real \<Rightarrow> nat \<Rightarrow> int" where
  "randomIndex rnd n = \<lfloor>rnd * real n\<rfloor>"

text \<open>
  The string tables of \<open>repairKoreanSentence\<close>, in source order. Every Hangul syllable
  is one code unit (U+D55C, U+C778, ... for the modifiers; U+B2E4, U+C694, U+C74C, U+C784
  for the closing syllables).
\<close>

definition danglingModifiers :: "jsstring list" where
  "danglingModifiers = [[0xD55C], [0xC778], [0xC758], [0xB358], [0xB294], [0xC744], [0xB97C]]"

definition nounEndings :: "jsstring list" where
  "nounEndings =
     [[0x20, 0xACB0, 0xACFC, 0xB2E4, 0x2E],
      [0x20, 0xC0C1, 0xD0DC, 0xB2E4, 0x2E],
      [0x20, 0xCC29, 0xAC01, 0xC774, 0xB2E4, 0x2E],
      [0x20, 0xC804, 0xB7B5, 0xC774, 0xB2E4, 0x2E]]"

definition sentenceEnds :: "jsstring list" where
  "sentenceEnds = [[0x2E], [0x21], [0x3F], [STAR], [0xB2E4], [0xC694], [0xC74C], [0xC784]]"

definition repairKoreanSentence :: "real \<Rightarrow> jsstring \<Rightarrow> jsstring" where
  "repairKoreanSentence rnd text0 =
     (let repaired0 = trim text0;
          openCount = countStars repaired0;
          repaired1 = (if openCount mod 2 \<noteq> 0
                       then (if endsWith STAR repaired0 then jsSlice repaired0 0 (- 1)
                             else repaired0 @ [STAR])
                       else repaired0);
          repaired2 = (if startsWith STAR repaired1 \<and> endsWith STAR repaired1
                          \<and> length repaired1 > 10
                       then jsSlice repaired1 1 (- 1) else repaired1);
          lastChar = sliceFrom repaired2 (- 1);
          effectiveLastChar = (if lastChar = [STAR] then jsSlice repaired2 (- 2) (- 1) else lastChar)
      in if effectiveLastChar \<in> set danglingModifiers
         then repaired2 @ (case itemAt nounEndings (randomIndex rnd (length nounEndings)) of
                             Some randomEnding \<Rightarrow> randomEnding
                           | None \<Rightarrow> js ''undefined'')
         else if effectiveLastChar \<notin> set sentenceEnds
         then (if lastChar \<noteq> [STAR] then repaired2 @ js ''.'' else repaired2)
         else repaired2)"

text \<open>The class \<open>[\w\uAC00-\uD7A3]\<close>: ASCII letters, digits, underscore, Hangul syllables.\<close>

definition isWordChar :: "jschar \<Rightarrow> bool" where
  "isWordChar c =
     ((0x41 \<le> c \<and> c \<le> 0x5A) \<or> (0x61 \<le> c \<and> c \<le> 0x7A) \<or> (0x30 \<le> c \<and> c \<le> 0x39)
      \<or> c = 0x5F \<or> (0xAC00 \<le> c \<and> c \<le> 0xD7A3))"

text \<open>
  \<open>targetWord.match(/^([^\w\uAC00-\uD7A3]*)([\w\uAC00-\uD7A3]+)([^\w\uAC00-\uD7A3]*)$/)\<close>:
  a run of other characters, a non-empty run of word characters, a run of other characters
  up to the end. The three groups, or \<open>None\<close> for null.
\<close>

definition matchWord :: "jsstring \<Rightarrow> (jsstring \<times> jsstring \<times> jsstring) option" where
  "matchWord targetWord =
     (let prefix = takeWhile (\<lambda>c. \<not> isWordChar c) targetWord;
          rest = dropWhile (\<lambda>c. \<not> isWordChar c) targetWord;
          core = takeWhile isWordChar rest;
          suffix = dropWhile isWordChar rest
      in if core \<noteq> [] \<and> list_all (\<lambda>c. \<not> isWordChar c) suffix
         then Some (prefix, core, suffix) else None)"

definition highlightWord :: "jsstring \<Rightarrow> jsstring" where
  "highlightWord targetWord =
     (case matchWord targetWord of
        Some (prefix, core, suffix) \<Rightarrow> prefix @ [STAR] @ core @ [STAR] @ suffix
      | None \<Rightarrow> [STAR] @ targetWord @ [STAR])"

datatype Language = Korean | English

datatype ScriptError = ApiKeyNotSet | CommunicationFailed

text \<open>
  The generative service is outside the program: its outcome is a parameter, either a
  failed call or the \<open>response.text\<close> (which may be undefined).
\<close>

datatype ApiResponse = ApiFailure | ApiText "jsstring option"

text \<open>
  Step 2 of \<open>generateAutopsyScript\<close>, the fallback highlight and the final \<open>return\<close>. An
  index outside its array makes the next property access throw a TypeError, which the
  enclosing \<open>catch\<close> turns into the communication error.
\<close>

definition fallbackHighlight :: "real \<Rightarrow> jsstring \<Rightarrow> ScriptError + jsstring" where
  "fallbackHighlight rnd text1 =
     (if STAR \<notin> set text1 then
        let ws = splitOn SPACE text1
        in if length ws > 2 then
             let candidates = filter (\<lambda>(word, index). length word > 2) (zip ws [0 ..< length ws]);
                 targetIndex =
                   (if length candidates > 0
                    then (case itemAt candidates (randomIndex rnd (length candidates)) of
                            Some (word, index) \<Rightarrow> Some (int index)
                          | None \<Rightarrow> None)
                    else Some (randomIndex rnd (length ws - 2) + 1))
             in (case targetIndex of
                   None \<Rightarrow> Inl CommunicationFailed
                 | Some i \<Rightarrow>
                     (case itemAt ws i of
                        None \<Rightarrow> Inl CommunicationFailed
                      | Some targetWord \<Rightarrow>
                          Inr (joinWith SPACE (ws[nat i := highlightWord targetWord]))))
           else Inr (trim text1)
      else Inr (trim text1))"

definition generateAutopsyScript ::
  "bool \<Rightarrow> ApiResponse \<Rightarrow> Language \<Rightarrow> real \<Rightarrow> real \<Rightarrow> ScriptError + jsstring" where
  "generateAutopsyScript apiKeySet response language rnd1 rnd2 =
     (if \<not> apiKeySet then Inl ApiKeyNotSet
      else (case response of
              ApiFailure \<Rightarrow> Inl CommunicationFailed
            | ApiText None \<Rightarrow> Inl CommunicationFailed
            | ApiText (Some text0) \<Rightarrow>
                if text0 = [] then Inl CommunicationFailed
                else
                  let text1 = (if language = Korean then repairKoreanSentence rnd1 text0
                               else if countStars text0 mod 2 \<noteq> 0 then text0 @ [STAR]
                               else text0)
                  in fallbackHighlight rnd2 text1))"

section \<open>Example inputs\<close>

text \<open>
  A three-word page on a 100 by 100 canvas, laid out with the largest configuration
  (font size Large, family Dongle: 80 px, line height 90 px) and with the default one
  (Large, Sans: 40 px, line height 60 px).
\<close>

definition exampleWords :: "WordToLayout list" where
  "exampleWords = allWordsOf (js ''kinetic typography engine'')"

definition dongleLargeFit :: FitResult where
  "dongleLargeFit =
     fitLoop halfEm exampleWords 100 100
       (lineHeight (scaledConfig Large Dongle) / sizePx (scaledConfig Large Dongle))
       (sizePx (scaledConfig Large Dongle)) 0"


section \<open>Verified properties\<close>

lemma parseLoop_concat:
  "concat (map spanText spns) = clean \<Longrightarrow> parseLoop t li spns clean = (li', spns', clean')
   \<Longrightarrow> concat (map spanText spns') = clean'"
proof (induction t li spns clean rule: parseLoop.induct)
  case (1 textToParse lastIndex spns clean)
  show ?case
  proof (cases "regexExec textToParse lastIndex")
    case None
    with "1.prems" show ?thesis by (simp add: parseLoop.simps)
  next
    case (Some m)
    obtain idx styledText params newLast where m: "m = (idx, styledText, params, newLast)"
      by (cases m) auto
    show ?thesis
      apply (rule "1.IH" [OF Some m [symmetric] refl refl refl refl refl refl refl])
      using "1.prems" Some m
       apply (auto simp: plainSpan_def parseLoop.simps [of textToParse lastIndex] Let_def)
      done
  qed
qed

subsection \<open>Parser\<close>

text \<open>
  Claim C2 (span partition invariant). For every input string, the texts of the spans of the
  token returned by \<open>parseStyledWord\<close>, concatenated in order, are exactly its \<open>cleanText\<close>.
\<close>

theorem C2_span_partition:
  "concat (map spanText (spans (parseStyledWord rawWord))) = cleanText (parseStyledWord rawWord)"
proof -
  obtain li spns clean where p: "parseLoop (stripStars rawWord) 0 [] [] = (li, spns, clean)"
    by (cases "parseLoop (stripStars rawWord) 0 [] []") auto
  have "concat (map spanText spns) = clean"
    using parseLoop_concat [OF _ p] by simp
  then show ?thesis
    by (simp add: parseStyledWord_def p Let_def plainSpan_def)
qed

theorem C2_span_partition_witness:
  "concat (map spanText (spans (parseStyledWord (js ''*a[bc](red|wiggle)d[e]f[g](pulse)*''))))
     = js ''abcd[e]fg''"
proof -
  have "cleanText (parseStyledWord (js ''*a[bc](red|wiggle)d[e]f[g](pulse)*'')) = js ''abcd[e]fg''"
    by code_simp
  with C2_span_partition [of "js ''*a[bc](red|wiggle)d[e]f[g](pulse)*''"]
  show ?thesis by simp
qed

lemma findMatch_no_bracket: "LBRACKET \<notin> set s \<Longrightarrow> findMatch s = None"
  by (induction s) (auto simp: matchAt_def)

lemma parseLoop_no_bracket:
  "LBRACKET \<notin> set t \<Longrightarrow> parseLoop t 0 [] [] = (0, [], [])"
  by (simp add: parseLoop.simps regexExec_def findMatch_no_bracket)

lemma cleanText_no_bracket:
  "LBRACKET \<notin> set (stripStars rawWord) \<Longrightarrow> cleanText (parseStyledWord rawWord) = stripStars rawWord"
  by (simp add: parseStyledWord_def parseLoop_no_bracket substring_def Let_def)

lemma set_stripStars: "set (stripStars s) \<subseteq> set s"
  by (auto simp: stripStars_def Let_def split: list.splits if_splits dest: in_set_butlastD)

lemma stripStars_eq:
  "stripStars rawWord =
     (let s1 = (if startsWith STAR rawWord then tl rawWord else rawWord)
      in if endsWith STAR s1 then butlast s1 else s1)"
  by (cases rawWord)
     (auto simp: stripStars_def startsWith_def endsWith_def Let_def last_rev hd_rev
           split: list.splits)

lemma parseStyledWord_parseText:
  "(cleanText (parseStyledWord rawWord), spans (parseStyledWord rawWord))
     = parseText (stripStars rawWord)"
  by (simp add: parseStyledWord_def parseText_def Let_def split: prod.splits)

text \<open>
  Claim C4 (emphasis-marker stripping), as the code has it. \<open>isHighlight\<close> is set exactly
  when the raw word both starts and ends with an asterisk. The stripping does not depend on
  that: for every raw word, the text that is parsed into \<open>cleanText\<close> and \<open>spans\<close> is the
  raw word without its leading asterisk, if it has one, and then without its trailing
  asterisk, if it has one; so a word that carries an asterisk on one side only loses it.
  For a word without \<open>[\<close> (no style directive can match) that text is the \<open>cleanText\<close>.
\<close>

theorem C4_strip_independent:
  "isHighlight (parseStyledWord rawWord) = (startsWith STAR rawWord \<and> endsWith STAR rawWord)
   \<and> (cleanText (parseStyledWord rawWord), spans (parseStyledWord rawWord))
       = parseText (let s1 = (if startsWith STAR rawWord then tl rawWord else rawWord)
                    in if endsWith STAR s1 then butlast s1 else s1)
   \<and> (LBRACKET \<notin> set rawWord \<longrightarrow>
        cleanText (parseStyledWord rawWord) =
          (let s1 = (if startsWith STAR rawWord then tl rawWord else rawWord)
           in if endsWith STAR s1 then butlast s1 else s1))"
proof (intro conjI impI)
  show "isHighlight (parseStyledWord rawWord) = (startsWith STAR rawWord \<and> endsWith STAR rawWord)"
    by (simp add: parseStyledWord_def Let_def split: prod.splits)
next
  show "(cleanText (parseStyledWord rawWord), spans (parseStyledWord rawWord))
       = parseText (let s1 = (if startsWith STAR rawWord then tl rawWord else rawWord)
                    in if endsWith STAR s1 then butlast s1 else s1)"
    by (simp only: parseStyledWord_parseText stripStars_eq)
next
  assume "LBRACKET \<notin> set rawWord"
  then have "LBRACKET \<notin> set (stripStars rawWord)"
    using set_stripStars by blast
  then have "cleanText (parseStyledWord rawWord) = stripStars rawWord"
    by (rule cleanText_no_bracket)
  then show "cleanText (parseStyledWord rawWord) =
           (let s1 = (if startsWith STAR rawWord then tl rawWord else rawWord)
            in if endsWith STAR s1 then butlast s1 else s1)"
    by (simp only: stripStars_eq)
qed

text \<open>
  The word \<open>*busy*;\<close> of the script \<open>You aren't *busy*; ...\<close> ends with \<open>;\<close>: it is not
  a highlight, and still loses its leading asterisk. The word \<open>*[a](red)\<close> carries a style
  directive and an asterisk on its left side only: the asterisk is removed, and the
  directive behind it becomes the red span \<open>a\<close>.
\<close>

theorem C4_strip_independent_witness:
  "LBRACKET \<notin> set (js ''*busy*;'')
   \<and> \<not> isHighlight (parseStyledWord (js ''*busy*;''))
   \<and> cleanText (parseStyledWord (js ''*busy*;'')) = js ''busy*;''
   \<and> \<not> isHighlight (parseStyledWord (js ''*[a](red)''))
   \<and> (cleanText (parseStyledWord (js ''*[a](red)'')), spans (parseStyledWord (js ''*[a](red)'')))
       = parseText (js ''[a](red)'')
   \<and> parseText (js ''[a](red)'')
       = (js ''a'', [\<lparr>spanText = js ''a'', style = \<lparr>color = Some (js ''red''), effect = None\<rparr>\<rparr>])"
proof -
  have v: "parseText (js ''[a](red)'')
       = (js ''a'', [\<lparr>spanText = js ''a'', style = \<lparr>color = Some (js ''red''), effect = None\<rparr>\<rparr>])"
    by code_simp
  from C4_strip_independent [of "js ''*busy*;''"] C4_strip_independent [of "js ''*[a](red)''"] v
  show ?thesis
    by (simp add: js_def startsWith_def endsWith_def)
qed

text \<open>
  The claim as the specification states it fails: \<open>*busy\<close> carries an asterisk on its left
  side only, is not a highlight, and its text does not stay unchanged.
\<close>

theorem C4_counterexample:
  "startsWith STAR (js ''*busy'') \<and> \<not> endsWith STAR (js ''*busy'')
   \<and> \<not> isHighlight (parseStyledWord (js ''*busy''))
   \<and> cleanText (parseStyledWord (js ''*busy'')) = js ''busy''
   \<and> cleanText (parseStyledWord (js ''*busy'')) \<noteq> js ''*busy''"
  by code_simp

subsection \<open>Timeline\<close>

lemma pow2_pos: "0 < pow2 e"
  by (simp add: pow2_def)

lemma roundHalfEven_nonneg: "0 \<le> q \<Longrightarrow> 0 \<le> roundHalfEven q"
  by (auto simp: roundHalfEven_def Let_def)

lemma dbl_nonneg:
  assumes "0 \<le> x"
  shows "0 \<le> dbl x"
proof (cases "x = 0")
  case True
  then show ?thesis by (simp add: dbl_def)
next
  case False
  let ?ulp = "pow2 (binadeExp 1100 \<bar>x\<bar> 0 - 52)"
  have "0 \<le> \<bar>x\<bar> / ?ulp"
    using pow2_pos [of "binadeExp 1100 \<bar>x\<bar> 0 - 52"] by simp
  then have "0 \<le> roundHalfEven (\<bar>x\<bar> / ?ulp)"
    by (rule roundHalfEven_nonneg)
  then have "0 \<le> of_int (roundHalfEven (\<bar>x\<bar> / ?ulp)) * ?ulp"
    using pow2_pos [of "binadeExp 1100 \<bar>x\<bar> 0 - 52"] by simp
  with assms False show ?thesis
    by (simp add: dbl_def Let_def)
qed

text \<open>
  Claim C1 (drift correction), as the code has it. With a known audio duration and at
  least one segment, the scale is the double quotient \<open>audioDuration / lastSegmentEnd\<close>
  exactly when the two differ by more than 0.5 s and that quotient lies strictly between
  the doubles 0.8 and 1.2; in every other case it is 1. A duration that is unknown, or 0,
  gives 1. For \<open>lastSegmentEnd = 100\<close> and \<open>audioDuration = 200\<close> the scale is 1.
\<close>

theorem C1_timeScale:
  "timeScale (Some d) transcriptSegments =
     (if dbl d \<noteq> 0 \<and> transcriptSegments \<noteq> []
         \<and> dbl 0.5 < \<bar>fsub (dbl d) (dbl (segEnd (last transcriptSegments)))\<bar>
         \<and> dbl 0.8 < fdiv (dbl d) (dbl (segEnd (last transcriptSegments)))
         \<and> fdiv (dbl d) (dbl (segEnd (last transcriptSegments))) < dbl 1.2
      then fdiv (dbl d) (dbl (segEnd (last transcriptSegments))) else 1)
   \<and> timeScale None transcriptSegments = 1
   \<and> timeScale (Some 0) transcriptSegments = 1
   \<and> (transcriptSegments \<noteq> [] \<and> segEnd (last transcriptSegments) = 100
        \<longrightarrow> timeScale (Some 200) transcriptSegments = 1)"
proof (intro conjI impI)
  have z: "\<not> dbl 0.8 < fdiv x 0" for x
    using dbl_nonneg [of "0.8"] by (simp add: fdiv_def dbl_def)
  show "timeScale (Some d) transcriptSegments =
     (if dbl d \<noteq> 0 \<and> transcriptSegments \<noteq> []
         \<and> dbl 0.5 < \<bar>fsub (dbl d) (dbl (segEnd (last transcriptSegments)))\<bar>
         \<and> dbl 0.8 < fdiv (dbl d) (dbl (segEnd (last transcriptSegments)))
         \<and> fdiv (dbl d) (dbl (segEnd (last transcriptSegments))) < dbl 1.2
      then fdiv (dbl d) (dbl (segEnd (last transcriptSegments))) else 1)"
    using z [of "dbl d"] by (auto simp: timeScale_def Let_def)
  show "timeScale None transcriptSegments = 1"
    by (simp add: timeScale_def)
  show "timeScale (Some 0) transcriptSegments = 1"
    by (simp add: timeScale_def dbl_def)
next
  assume a: "transcriptSegments \<noteq> [] \<and> segEnd (last transcriptSegments) = 100"
  have "\<not> fdiv (dbl 200) (dbl 100) < dbl 1.2"
    by code_simp
  with a show "timeScale (Some 200) transcriptSegments = 1"
    by (simp add: timeScale_def Let_def)
qed

text \<open>
  A ratio of 1.15 is applied and a ratio of 2 is not. At 4.02 s of audio against a last end
  of 3.35 s the double quotient is just below the double 1.2, and is applied; at 4.8 s
  against 4 s it is the double 1.2 itself, and is not.
\<close>

theorem C1_timeScale_witness:
  "timeScale (Some 115) [\<lparr>segText = js ''hello world'', segStart = 0, segEnd = 100\<rparr>] = dbl 1.15
   \<and> timeScale (Some 200) [\<lparr>segText = js ''hello world'', segStart = 0, segEnd = 100\<rparr>] = 1
   \<and> timeScale (Some 4.02) [\<lparr>segText = js ''hello world'', segStart = 0, segEnd = 3.35\<rparr>]
       = fdiv (dbl 4.02) (dbl 3.35)
   \<and> fdiv (dbl 4.02) (dbl 3.35) < dbl 1.2
   \<and> timeScale (Some 4.8) [\<lparr>segText = js ''hello world'', segStart = 0, segEnd = 4\<rparr>] = 1"
proof -
  have v1: "dbl 115 \<noteq> 0 \<and> dbl 0.5 < \<bar>fsub (dbl 115) (dbl 100)\<bar>
            \<and> dbl 0.8 < fdiv (dbl 115) (dbl 100) \<and> fdiv (dbl 115) (dbl 100) < dbl 1.2
            \<and> fdiv (dbl 115) (dbl 100) = dbl 1.15"
    by code_simp
  have v2: "dbl 4.02 \<noteq> 0 \<and> dbl 0.5 < \<bar>fsub (dbl 4.02) (dbl 3.35)\<bar>
            \<and> dbl 0.8 < fdiv (dbl 4.02) (dbl 3.35) \<and> fdiv (dbl 4.02) (dbl 3.35) < dbl 1.2"
    by code_simp
  have v3: "\<not> fdiv (dbl 4.8) (dbl 4) < dbl 1.2"
    by code_simp
  from C1_timeScale [of 115 "[\<lparr>segText = js ''hello world'', segStart = 0, segEnd = 100\<rparr>]"]
       C1_timeScale [of 200 "[\<lparr>segText = js ''hello world'', segStart = 0, segEnd = 100\<rparr>]"]
       C1_timeScale [of "4.02" "[\<lparr>segText = js ''hello world'', segStart = 0, segEnd = 3.35\<rparr>]"]
       C1_timeScale [of "4.8" "[\<lparr>segText = js ''hello world'', segStart = 0, segEnd = 4\<rparr>]"]
       v1 v2 v3
  show ?thesis by simp
qed

text \<open>
  With inclusive bounds the claim fails: for \<open>lastSegmentEnd = 100\<close> and
  \<open>audioDuration = 120\<close> the difference is 20 s and the ratio is 1.2, inside \<open>[0.8, 1.2]\<close>
  both as a real quotient and as the double quotient compared with the double literals,
  but the code leaves the scale at 1.
\<close>

theorem C1_counterexample:
  "\<bar>(120::real) - 100\<bar> > 0.5 \<and> (0.8::real) \<le> 120 / 100 \<and> (120::real) / 100 \<le> 1.2
   \<and> dbl 0.5 < \<bar>fsub (dbl 120) (dbl 100)\<bar>
   \<and> dbl 0.8 \<le> fdiv (dbl 120) (dbl 100) \<and> fdiv (dbl 120) (dbl 100) \<le> dbl 1.2
   \<and> timeScale (Some 120) [\<lparr>segText = js ''hello world'', segStart = 0, segEnd = 100\<rparr>] = 1
   \<and> timeScale (Some 120) [\<lparr>segText = js ''hello world'', segStart = 0, segEnd = 100\<rparr>] \<noteq> fdiv (dbl 120) (dbl 100)"
  by code_simp
















subsection \<open>Layout\<close>

lemma fitLoop_exit:
  assumes "n < 20"
  shows "loops (fitLoop m ws w h r fs n) \<le> 20
       \<and> n < loops (fitLoop m ws w h r fs n)
       \<and> (let res = fitLoop m ws w h r fs n
          in (totalHeight res \<le> h - w * 0.1 * 2
                \<and> totalHeight res = real (length (fitLines res)) * (finalFontSize res * r))
             \<or> (finalFontSize res \<le> 10 \<or> loops res = 20)
                \<and> finalFontSize res = fs - 2 * real (loops res - n))"
  using assms
proof (induction k \<equiv> "20 - n" arbitrary: fs n)
  case 0
  then show ?case by simp
next
  case (Suc k)
  let ?lines = "wrapLines (m fs) (w - w * 0.1 * 2) ws"
  let ?total = "real (length ?lines) * (fs * r)"
  show ?case
  proof (cases "?total > h - w * 0.1 * 2 \<and> fs - 2 > 10 \<and> n + 1 < 20")
    case True
    then have eq: "fitLoop m ws w h r fs n = fitLoop m ws w h r (fs - 2) (n + 1)"
      by (subst fitLoop.simps) (simp add: Let_def)
    from Suc.hyps(2) have k: "k = 20 - (n + 1)" by simp
    from True have "n + 1 < 20" by simp
    from Suc.hyps(1) [OF k this, of "fs - 2"]
    show ?thesis
      unfolding eq by (auto simp: Let_def of_nat_diff)
  next
    case False
    have eq: "fitLoop m ws w h r fs n =
        \<lparr>finalFontSize = (if ?total > h - w * 0.1 * 2 then fs - 2 else fs),
         fitLines = ?lines, totalHeight = ?total, loops = n + 1\<rparr>"
      using False by (subst fitLoop.simps) (auto simp: Let_def)
    show ?thesis
      unfolding eq using False Suc.prems by (auto simp: Let_def)
  qed
qed


text \<open>
  Claim C5 (layout fit and termination), as the code has it. \<open>fitLoop\<close> is a total
  function: the loop ends after at most 20 iterations. On exit the lines fit
  (\<open>lineCount * lineHeight \<le> h - 2 * padding\<close>), or the font size is at most 10, or the
  iteration cap was reached with the font size reduced by 40. When the initial font size
  is at most 50 the third case is covered by the second.
\<close>

theorem C5_layout_fit:
  "loops (fitLoop measureText ws w h lineHeightRatio fontSize 0) \<le> 20
   \<and> (real (length (fitLines (fitLoop measureText ws w h lineHeightRatio fontSize 0)))
          * (finalFontSize (fitLoop measureText ws w h lineHeightRatio fontSize 0) * lineHeightRatio)
        \<le> h - w * 0.1 * 2
      \<or> finalFontSize (fitLoop measureText ws w h lineHeightRatio fontSize 0) \<le> 10
      \<or> loops (fitLoop measureText ws w h lineHeightRatio fontSize 0) = 20
        \<and> finalFontSize (fitLoop measureText ws w h lineHeightRatio fontSize 0) = fontSize - 40)
   \<and> (fontSize \<le> 50 \<longrightarrow>
        real (length (fitLines (fitLoop measureText ws w h lineHeightRatio fontSize 0)))
          * (finalFontSize (fitLoop measureText ws w h lineHeightRatio fontSize 0) * lineHeightRatio)
        \<le> h - w * 0.1 * 2
      \<or> finalFontSize (fitLoop measureText ws w h lineHeightRatio fontSize 0) \<le> 10)"
  using fitLoop_exit [of 0 measureText ws w h lineHeightRatio fontSize]
  by (auto simp: Let_def)

theorem C5_layout_fit_witness:
  "(40::real) \<le> 50
   \<and> finalFontSize (fitLoop halfEm exampleWords 100 100 (60 / 40) 40 0) = 16
   \<and> loops (fitLoop halfEm exampleWords 100 100 (60 / 40) 40 0) = 13
   \<and> real (length (fitLines (fitLoop halfEm exampleWords 100 100 (60 / 40) 40 0)))
        * (finalFontSize (fitLoop halfEm exampleWords 100 100 (60 / 40) 40 0) * (60 / 40))
      \<le> 100 - 100 * 0.1 * 2"
proof -
  have v: "finalFontSize (fitLoop halfEm exampleWords 100 100 (60 / 40) 40 0) = 16
         \<and> loops (fitLoop halfEm exampleWords 100 100 (60 / 40) 40 0) = 13"
    by code_simp
  with C5_layout_fit [of halfEm exampleWords 100 100 "60 / 40" 40]
  show ?thesis by simp
qed

text \<open>
  The claim without the iteration cap fails. With the 80 px configuration the loop stops
  after 20 iterations at 40 px; the three lines then take \<open>3 * 45 = 135\<close> px, more than the
  \<open>100 - 2 * 10 = 80\<close> px available (and more than \<open>100 - 10\<close>), and 40 px is not the floor.
\<close>

theorem C5_counterexample:
  "length exampleWords = 3
   \<and> loops dongleLargeFit = 20
   \<and> finalFontSize dongleLargeFit = 40
   \<and> length (fitLines dongleLargeFit) = 3
   \<and> \<not> real (length (fitLines dongleLargeFit)) * (finalFontSize dongleLargeFit * (90 / 80))
         \<le> 100 - 100 * 0.1 * 2
   \<and> \<not> real (length (fitLines dongleLargeFit)) * (finalFontSize dongleLargeFit * (90 / 80))
         \<le> 100 - 100 * 0.1
   \<and> \<not> finalFontSize dongleLargeFit \<le> 10"
  by code_simp

subsection \<open>Renderer\<close>




subsection \<open>Capture pipeline\<close>

lemma mathRound_nonneg: "0 \<le> v \<Longrightarrow> 0 \<le> mathRound v"
  by (simp add: mathRound_def)

text \<open>
  Claim C7 (progress reporting), as the code has it. On a frame with a total duration
  other than 0, the value passed to \<open>onProgress\<close> is \<open>min(100, round(q))\<close>, where \<open>q\<close> is
  the product \<open>(elapsed / totalDuration) * 100\<close> in double arithmetic, the quotient and
  the product each rounded. It never exceeds 100. There is no lower clamp; the value is
  non-negative, and so equal to the rounding clamped to \<open>[0, 100]\<close>, whenever the elapsed
  time is non-negative and the total duration positive.
\<close>

theorem C7_progress:
  "(dbl totalDuration \<noteq> 0 \<longrightarrow>
      progressPercent actualElapsedTime totalDuration
        = Some (min 100 (mathRound (fmul (fdiv (dbl actualElapsedTime) (dbl totalDuration)) 100))))
   \<and> (\<forall>p. progressPercent actualElapsedTime totalDuration = Some p \<longrightarrow> p \<le> 100)
   \<and> (0 \<le> actualElapsedTime \<and> 0 < totalDuration \<longrightarrow>
        (\<forall>p. progressPercent actualElapsedTime totalDuration = Some p \<longrightarrow> 0 \<le> p)
        \<and> (dbl totalDuration \<noteq> 0 \<longrightarrow>
             progressPercent actualElapsedTime totalDuration
               = Some (max 0 (min 100
                   (mathRound (fmul (fdiv (dbl actualElapsedTime) (dbl totalDuration)) 100))))))"
proof -
  let ?q = "fmul (fdiv (dbl actualElapsedTime) (dbl totalDuration)) 100"
  have a: "dbl totalDuration \<noteq> 0 \<Longrightarrow>
      progressPercent actualElapsedTime totalDuration = Some (min 100 (mathRound ?q))"
    by (simp add: progressPercent_def Let_def)
  have b: "p \<le> 100" if "progressPercent actualElapsedTime totalDuration = Some p" for p
    using that by (auto simp: progressPercent_def Let_def split: if_splits)
  have n: "0 \<le> mathRound ?q" if "0 \<le> actualElapsedTime" "0 < totalDuration"
  proof -
    from that have "0 \<le> dbl actualElapsedTime" "0 \<le> dbl totalDuration"
      by (simp_all add: dbl_nonneg)
    then have "0 \<le> dbl actualElapsedTime / dbl totalDuration"
      by simp
    then have "0 \<le> fdiv (dbl actualElapsedTime) (dbl totalDuration)"
      unfolding fdiv_def by (rule dbl_nonneg)
    then have "0 \<le> fdiv (dbl actualElapsedTime) (dbl totalDuration) * 100"
      by simp
    then have "0 \<le> ?q"
      unfolding fmul_def by (rule dbl_nonneg)
    then show ?thesis by (rule mathRound_nonneg)
  qed
  have c: "0 \<le> p"
    if "0 \<le> actualElapsedTime" "0 < totalDuration"
      "progressPercent actualElapsedTime totalDuration = Some p" for p
    using that n by (auto simp: progressPercent_def Let_def split: if_splits)
  have d: "progressPercent actualElapsedTime totalDuration = Some (max 0 (min 100 (mathRound ?q)))"
    if "0 \<le> actualElapsedTime" "0 < totalDuration" "dbl totalDuration \<noteq> 0"
    using a [OF that(3)] n [OF that(1,2)] by simp
  from a b c d show ?thesis by blast
qed

text \<open>
  Half of the duration reports 50 and anything past the end 100. At 290 ms of 2000 ms the
  double product is just below 14.5 and the report is 14, where the real quotient 14.5
  would round to 15.
\<close>

theorem C7_progress_witness:
  "progressPercent 2500 5000 = Some 50
   \<and> progressPercent 6000 5000 = Some 100
   \<and> progressPercent 290 2000 = Some 14
   \<and> mathRound (290 / 2000 * 100) = 15"
proof -
  have v: "dbl 5000 \<noteq> 0 \<and> dbl 2000 \<noteq> 0
         \<and> mathRound (fmul (fdiv (dbl 2500) (dbl 5000)) 100) = 50
         \<and> mathRound (fmul (fdiv (dbl 6000) (dbl 5000)) 100) = 120
         \<and> mathRound (fmul (fdiv (dbl 290) (dbl 2000)) 100) = 14
         \<and> mathRound (290 / 2000 * 100) = 15"
    by code_simp
  from C7_progress [of 5000 2500] C7_progress [of 5000 6000] C7_progress [of 2000 290] v
  show ?thesis by simp
qed

text \<open>
  The claim with the lower clamp fails on an elapsed time that the clock of the
  timestamped mode produces. The audio fails to load 30 s after the page was opened
  (\<open>performance.now() = 30000\<close>), 0.1 s after the audio context was created, so
  \<open>audioStartTimeRef\<close> is set to 30; a frame one second later has the context time 1.1 and
  the elapsed time \<open>(1.1 - 30) * 1000 = -28900\<close>. With a total duration of 5000 ms the
  reported progress is \<open>-578\<close>, where the clamp to \<open>[0, 100]\<close> would give 0.
\<close>

theorem C7_counterexample:
  "elapsedTimestamped (Some 1.1) (audioStartTimeAfterSetup False 0.1 30000) 31000 = - 28900
   \<and> progressPercent
        (elapsedTimestamped (Some 1.1) (audioStartTimeAfterSetup False 0.1 30000) 31000) 5000
       = Some (- 578)
   \<and> max 0 (min 100 (mathRound (fmul (fdiv (dbl (- 28900)) (dbl 5000)) 100))) = 0"
  by code_simp

text \<open>
  Claim C8 (wall-clock fallback) at a session of the timestamped mode whose audio failed to
  load: the loop starts at \<open>performance.now() = 30000\<close> with the context time 0.1, and a
  frame comes one second later (\<open>performance.now() = 31000\<close>, context time 1.1). The claim
  asks for \<open>31000 - 30000 = 1000\<close> ms. The timestamped loop computes \<open>-28900\<close> ms from the
  audio context, and \<open>31000\<close> ms in its branch for a missing context; the paged loop and the
  third loop compute \<open>time - startTime\<close>.
\<close>

theorem C8_clock_timestamped:
  "elapsedTimestamped (Some 1.1) (audioStartTimeAfterSetup False 0.1 30000) 31000 = - 28900
   \<and> elapsedTimestamped None (audioStartTimeAfterSetup False 0.1 30000) 31000 = 31000
   \<and> elapsedPaged None False (audioStartTimeAfterSetup False 0.1 30000) 31000 30000 = 1000
   \<and> elapsedPaged (Some 1.1) False (audioStartTimeAfterSetup False 0.1 30000) 31000 30000 = 1000
   \<and> elapsedAmbient False 7000 31000 30000 = 1000"
  by (simp add: elapsedTimestamped_def audioStartTimeAfterSetup_def elapsedPaged_def
        elapsedAmbient_def)

text \<open>
  Claim C9 (empty artifact). When the recorder stops with no recorded byte, the only call
  is \<open>onError\<close> (made when that optional callback was supplied) and \<open>onComplete\<close> is not
  called; whenever \<open>onComplete\<close> is called, its URL stands for the concatenation of the
  chunks, and that blob is not empty.
\<close>

theorem C9_empty_artifact:
  "(length (newBlob (foldl ondataavailable [] dataEvents)) = 0 \<longrightarrow>
      recordingSession hasOnError dataEvents
        = (if hasOnError then [OnError ''Failed to finalize video file.''] else []))
   \<and> (\<forall>u. OnComplete u \<in> set (recordingSession hasOnError dataEvents) \<longrightarrow>
          u = ObjectURL (newBlob (foldl ondataavailable [] dataEvents))
          \<and> length (newBlob (foldl ondataavailable [] dataEvents)) > 0)"
  by (auto simp: recordingSession_def onstop_def Let_def)

theorem C9_empty_artifact_witness:
  "length (newBlob (foldl ondataavailable [] [[], []])) = 0
   \<and> recordingSession True [[], []] = [OnError ''Failed to finalize video file.'']
   \<and> recordingSession True [[1, 2], [], [3]] = [OnComplete (ObjectURL [1, 2, 3])]"
  using C9_empty_artifact [of "[[], []]" True]
  by (simp add: recordingSession_def onstop_def newBlob_def ondataavailable_def)

subsection \<open>Script generation\<close>

lemma countStars_append: "countStars (a @ b) = countStars a + countStars b"
  by (simp add: countStars_def)

lemma countStars_zero_iff: "countStars s = 0 \<longleftrightarrow> STAR \<notin> set s"
  by (auto simp: countStars_def filter_empty_conv)

lemma filter_dropWhile_disjoint:
  "(\<And>x. Q x \<Longrightarrow> \<not> P x) \<Longrightarrow> filter P (dropWhile Q xs) = filter P xs"
  by (induction xs) auto

lemma not_isWhiteSpace_STAR: "isWhiteSpace c \<Longrightarrow> c \<noteq> STAR"
  by (auto simp: isWhiteSpace_def)

lemma countStars_trim: "countStars (trim s) = countStars s"
proof -
  have d: "filter (\<lambda>c. c = STAR) (dropWhile isWhiteSpace xs) = filter (\<lambda>c. c = STAR) xs" for xs
    by (rule filter_dropWhile_disjoint) (simp add: not_isWhiteSpace_STAR)
  have "length (filter (\<lambda>c. c = STAR) (rev xs)) = length (filter (\<lambda>c. c = STAR) xs)" for xs :: jsstring
    by (simp flip: rev_filter)
  then show ?thesis
    by (simp add: countStars_def trim_def d flip: rev_filter)
qed

lemma jsSlice_butlast: "jsSlice s 0 (- 1) = butlast s"
  by (cases "s = []") (auto simp: jsSlice_def Let_def butlast_conv_take nat_diff_distrib)

lemma jsSlice_inner: "jsSlice s 1 (- 1) = butlast (tl s)"
proof (cases s)
  case Nil
  then show ?thesis by (simp add: jsSlice_def)
next
  case (Cons x xs)
  then show ?thesis
    by (cases "xs = []") (auto simp: jsSlice_def Let_def butlast_conv_take nat_diff_distrib)
qed

lemma countStars_butlast:
  "endsWith STAR s \<Longrightarrow> Suc (countStars (butlast s)) = countStars s"
proof -
  assume "endsWith STAR s"
  then obtain t where "s = t @ [STAR]"
    by (cases s rule: rev_cases) (auto simp: endsWith_def)
  then show ?thesis by (simp add: countStars_def)
qed

lemma countStars_tl:
  "startsWith STAR s \<Longrightarrow> Suc (countStars (tl s)) = countStars s"
  by (cases s) (auto simp: startsWith_def countStars_def)

lemma countStars_inner:
  assumes "startsWith STAR s" "endsWith STAR s" "length s > 10"
  shows "Suc (Suc (countStars (butlast (tl s)))) = countStars s"
proof -
  from assms(1) obtain t where s: "s = STAR # t"
    by (cases s) (auto simp: startsWith_def)
  with assms(3) have "t \<noteq> []" by auto
  with assms(2) s have "endsWith STAR t"
    by (cases t rule: rev_cases) (auto simp: endsWith_def)
  from countStars_butlast [OF this] s show ?thesis
    by (simp add: countStars_def)
qed

lemma countStars_ending:
  "countStars (case itemAt nounEndings i of Some e \<Rightarrow> e | None \<Rightarrow> js ''undefined'') = 0"
proof (cases "itemAt nounEndings i")
  case None
  then show ?thesis by (simp add: countStars_def js_def)
next
  case (Some e)
  then have "e \<in> set nounEndings"
    by (auto simp: itemAt_def split: if_splits)
  then have "countStars e = 0"
    by (auto simp: nounEndings_def countStars_def)
  with Some show ?thesis by simp
qed

lemma even_repairKoreanSentence: "even (countStars (repairKoreanSentence rnd text0))"
proof -
  define r0 where "r0 = trim text0"
  define r1 where "r1 = (if countStars r0 mod 2 \<noteq> 0
                       then (if endsWith STAR r0 then jsSlice r0 0 (- 1) else r0 @ [STAR])
                       else r0)"
  define r2 where "r2 = (if startsWith STAR r1 \<and> endsWith STAR r1 \<and> length r1 > 10
                       then jsSlice r1 1 (- 1) else r1)"
  have e1: "even (countStars r1)"
  proof (cases "countStars r0 mod 2 \<noteq> 0")
    case False
    then have "even (countStars r0)" by presburger
    with False show ?thesis by (simp add: r1_def)
  next
    case True
    then have odd: "odd (countStars r0)" by presburger
    show ?thesis
    proof (cases "endsWith STAR r0")
      case True
      from countStars_butlast [OF this] odd have "even (countStars (butlast r0))"
        by (metis even_Suc)
      with True \<open>countStars r0 mod 2 \<noteq> 0\<close> show ?thesis
        by (simp add: r1_def jsSlice_butlast)
    next
      case False
      with \<open>countStars r0 mod 2 \<noteq> 0\<close> odd show ?thesis
        by (simp add: r1_def countStars_append countStars_def)
    qed
  qed
  have e2: "even (countStars r2)"
  proof (cases "startsWith STAR r1 \<and> endsWith STAR r1 \<and> length r1 > 10")
    case False
    then have "r2 = r1" unfolding r2_def by (rule if_not_P)
    with e1 show ?thesis by simp
  next
    case True
    then have "Suc (Suc (countStars (butlast (tl r1)))) = countStars r1"
      by (simp add: countStars_inner)
    with e1 have "even (countStars (butlast (tl r1)))"
      by (metis even_Suc)
    moreover from True have "r2 = jsSlice r1 1 (- 1)" unfolding r2_def by (rule if_P)
    ultimately show ?thesis by (simp add: jsSlice_inner)
  qed
  have dot: "countStars (js ''.'') = 0"
    by (simp add: countStars_def js_def)
  have "repairKoreanSentence rnd text0 = r2
      \<or> repairKoreanSentence rnd text0 = r2 @ js ''.''
      \<or> repairKoreanSentence rnd text0 =
           r2 @ (case itemAt nounEndings (randomIndex rnd (length nounEndings)) of
                   Some e \<Rightarrow> e | None \<Rightarrow> js ''undefined'')"
    unfolding repairKoreanSentence_def Let_def r2_def r1_def r0_def by presburger
  with e2 dot show ?thesis
    by (auto simp: countStars_append countStars_ending)
qed

lemma splitOn_no_star:
  "STAR \<notin> set s \<Longrightarrow> w \<in> set (splitOn c s) \<Longrightarrow> STAR \<notin> set w"
proof (induction s arbitrary: w)
  case Nil
  then show ?case by simp
next
  case (Cons x xs)
  then show ?case
    by (cases "splitOn c xs") (auto split: if_splits)
qed

lemma countStars_joinWith:
  "countStars (joinWith SPACE ws) = sum_list (map countStars ws)"
  by (induction SPACE ws rule: joinWith.induct) (simp_all add: countStars_def)

lemma sum_list_update_zero:
  "\<forall>w \<in> set ws. f w = (0::nat) \<Longrightarrow> i < length ws \<Longrightarrow> sum_list (map f (ws[i := v])) = f v"
proof (induction ws arbitrary: i)
  case Nil
  then show ?case by simp
next
  case (Cons a ws)
  then show ?case by (cases i) (auto simp: sum_list_map_eq_sum_count)
qed

lemma matchWord_parts:
  "matchWord w = Some (p, c, s) \<Longrightarrow> w = p @ c @ s"
  by (auto simp: matchWord_def Let_def split: if_splits)

lemma countStars_highlightWord:
  assumes "STAR \<notin> set w"
  shows "countStars (highlightWord w) = 2"
proof (cases "matchWord w")
  case None
  with assms show ?thesis
    by (auto simp: highlightWord_def countStars_def filter_empty_conv)
next
  case (Some m)
  obtain p c s where m: "m = (p, c, s)" by (cases m) auto
  from matchWord_parts [OF Some [unfolded m]] assms
  have "STAR \<notin> set p" "STAR \<notin> set c" "STAR \<notin> set s" by auto
  with Some m show ?thesis
    by (auto simp: highlightWord_def countStars_def filter_empty_conv)
qed

lemma even_fallbackHighlight:
  assumes "fallbackHighlight rnd text1 = Inr s" and "even (countStars text1)"
  shows "even (countStars s)"
proof (cases "STAR \<notin> set text1 \<and> length (splitOn SPACE text1) > 2")
  case False
  with assms(1) have "s = trim text1"
    by (auto simp: fallbackHighlight_def Let_def split: if_splits)
  with assms(2) show ?thesis by (simp add: countStars_trim)
next
  case True
  let ?ws = "splitOn SPACE text1"
  from True assms(1) obtain i targetWord where
    at: "itemAt ?ws i = Some targetWord"
    and s: "s = joinWith SPACE (?ws[nat i := highlightWord targetWord])"
    by (auto simp: fallbackHighlight_def Let_def split: option.splits if_splits)
  from at have i: "nat i < length ?ws" and tw: "targetWord \<in> set ?ws"
    by (auto simp: itemAt_def split: if_splits)
  from True have z: "\<forall>w \<in> set ?ws. countStars w = 0"
    by (auto simp: countStars_zero_iff dest: splitOn_no_star)
  from True tw have "STAR \<notin> set targetWord"
    by (auto dest: splitOn_no_star)
  then have "countStars (highlightWord targetWord) = 2"
    by (rule countStars_highlightWord)
  with sum_list_update_zero [OF z i, of "highlightWord targetWord"] s
  show ?thesis by (simp add: countStars_joinWith)
qed

text \<open>
  Claim C10 (balanced emphasis markers). Every script that \<open>generateAutopsyScript\<close>
  returns, for either language and whatever the random choices, contains an even number of
  asterisks.
\<close>

theorem C10_balanced_markers:
  assumes "generateAutopsyScript apiKeySet response language rnd1 rnd2 = Inr script"
  shows "even (countStars script)"
proof -
  from assms obtain text0 where
    f: "fallbackHighlight rnd2
          (if language = Korean then repairKoreanSentence rnd1 text0
           else if countStars text0 mod 2 \<noteq> 0 then text0 @ [STAR] else text0) = Inr script"
    by (auto simp: generateAutopsyScript_def Let_def
             split: if_splits ApiResponse.splits option.splits)
  have "even (countStars (if countStars text0 mod 2 \<noteq> 0 then text0 @ [STAR] else text0))"
    by (cases "countStars text0 mod 2 \<noteq> 0")
       (simp_all add: countStars_def, presburger+)
  then have "even (countStars (if language = Korean then repairKoreanSentence rnd1 text0
           else if countStars text0 mod 2 \<noteq> 0 then text0 @ [STAR] else text0))"
    by (simp only: even_repairKoreanSentence split: if_split) simp
  with f show ?thesis by (rule even_fallbackHighlight)
qed


theorem C10_balanced_markers_witness:
  "generateAutopsyScript True (ApiText (Some (js ''He isn't busy; you are just irrelevant.'')))
      English 0.5 0.99
     = Inr (js ''He isn't busy; you are just *irrelevant*.'')
   \<and> even (countStars (js ''He isn't busy; you are just *irrelevant*.''))
   \<and> generateAutopsyScript True (ApiText (Some (js ''  abc *def ''))) Korean 0.5 0.99
     = Inr (js ''abc *def*'')
   \<and> even (countStars (js ''abc *def*''))"
proof -
  have v1: "generateAutopsyScript True
              (ApiText (Some (js ''He isn't busy; you are just irrelevant.''))) English 0.5 0.99
            = Inr (js ''He isn't busy; you are just *irrelevant*.'')"
    by code_simp
  have v2: "generateAutopsyScript True (ApiText (Some (js ''  abc *def ''))) Korean 0.5 0.99
            = Inr (js ''abc *def*'')"
    by code_simp
  from C10_balanced_markers [OF v1] C10_balanced_markers [OF v2] v1 v2
  show ?thesis by simp
qed

end
